theory Spec2Isabelle
  imports Complex_Main "HOL-Library.Sublist"
begin

section \<open>Strings\<close>

text \<open>
  \<open>String.prototype.split\<close> with a one-character separator: the pieces between the
  separators, in order; a string without the separator (the empty string too) gives one
  piece.
\<close>

fun split :: "char \<Rightarrow> string \<Rightarrow> string list" where
  "split sep [] = [[]]"
| "split sep (c # cs) =
     (if c = sep then [] # split sep cs
      else (case split sep cs of
              [] \<Rightarrow> [[c]]
            | w # ws' \<Rightarrow> (c # w) # ws'))"

text \<open>
  \<open>String.prototype.includes\<close>: the argument occurs at some position of the string.
\<close>

fun includesStr :: "string \<Rightarrow> string \<Rightarrow> bool" where
  "includesStr [] sub = (sub = [])"
| "includesStr (c # cs) sub = (prefix sub (c # cs) \<or> includesStr cs sub)"

text \<open>
  Array destructuring \<open>const [a, b] = xs\<close> reads \<open>xs[0]\<close> and \<open>xs[1]\<close>; a position
  past the end gives \<open>undefined\<close>, here \<open>None\<close>.
\<close>

fun element :: "'a list \<Rightarrow> nat \<Rightarrow> 'a option" where
  "element [] i = None"
| "element (x # xs) 0 = Some x"
| "element (x # xs) (Suc i) = element xs i"

text \<open>
  \<open>!x\<close> for \<open>x\<close> a string or \<open>undefined\<close>: true for \<open>undefined\<close> and for the empty
  string.
\<close>

definition falsy :: "string option \<Rightarrow> bool" where
  "falsy x = (x = None \<or> x = Some [])"

text \<open>
  The text of a non-negative integer, as \<open>String(n)\<close> and a template literal
  \<open>`${n}`\<close> give it and as a numeric property key is written: decimal digits, without
  leading zeros. (JavaScript writes integers from \<open>10^21\<close> on in exponent form; the
  indices and ranges of the component stay far below that.)
\<close>

definition digitChar :: "nat \<Rightarrow> char" where
  "digitChar d = ''0123456789'' ! d"

function numberText :: "nat \<Rightarrow> string" where
  "numberText n =
     (if n < 10 then [digitChar n] else numberText (n div 10) @ [digitChar (n mod 10)])"
  by pat_completeness auto
termination
proof (relation "measure id")
  show "wf (measure id)" by simp
next
  fix n :: nat
  assume "\<not> n < 10"
  then show "(n div 10, n) \<in> measure id" by simp
qed

declare numberText.simps [simp del]

text \<open>
  \<open>Number(s)\<close> followed by the conversion of the number to a property key, as in
  \<open>listState.current[Number(index)]\<close>. On a non-empty string of decimal digits whose
  value is at most \<open>2^53\<close> the number is that value exactly (leading zeros are
  allowed) and the key is its text. What the built-in conversion gives on every other
  string (signs, blanks, fractions, exponents, hexadecimal, \<open>NaN\<close>) is not fixed here:
  it is the parameter \<open>other\<close>.
\<close>

definition isDigit :: "char \<Rightarrow> bool" where
  "isDigit c = (c \<in> set ''0123456789'')"

definition digitString :: "string \<Rightarrow> bool" where
  "digitString s = (s \<noteq> [] \<and> list_all isDigit s)"

definition digitValue :: "char \<Rightarrow> nat" where
  "digitValue c = of_char c - 48"

definition digitsValue :: "string \<Rightarrow> nat" where
  "digitsValue s = foldl (\<lambda>a c. 10 * a + digitValue c) 0 s"

definition numberKey :: "(string \<Rightarrow> string) \<Rightarrow> string \<Rightarrow> string" where
  "numberKey other s =
     (if digitString s \<and> digitsValue s \<le> 2 ^ 53
      then numberText (digitsValue s) else other s)"

text \<open>
  A stand-in for \<open>other\<close> where a concrete value is needed: every string outside the
  digit strings is sent to the key \<open>NaN\<close>.
\<close>

definition otherNaN :: "string \<Rightarrow> string" where
  "otherNaN s = ''NaN''"

text \<open>
  A property access \<open>obj[k]\<close> with \<open>k\<close> a string or \<open>undefined\<close>: \<open>undefined\<close> is
  converted to the key \<open>undefined\<close>.
\<close>

definition propertyKey :: "string option \<Rightarrow> string" where
  "propertyKey k = (case k of None \<Rightarrow> ''undefined'' | Some s \<Rightarrow> s)"

section \<open>The checkbox list client: state\<close>

text \<open>
  The component \<open>CheckboxList\<close> and the hook \<open>useWebSocket\<close> keep their state in React
  state cells and refs. The model gathers them in one record that every handler takes
  and returns.

  \<^item> \<open>connected\<close> is the state cell of \<open>useWebSocket\<close>;
  \<^item> \<open>ws\<close> is \<open>ws.current\<close>: \<open>None\<close> while the ref is \<open>null\<close>, otherwise the
    \<open>readyState\<close> of the socket it holds;
  \<^item> \<open>wire\<close> lists the frames handed to the socket's own \<open>send\<close>, oldest first;
  \<^item> \<open>listState\<close> is the object \<open>listState.current\<close>: its own properties, by property
    key (a JavaScript property key is a string);
  \<^item> \<open>changesCount\<close>, \<open>rangeStart\<close> and \<open>rangeEnd\<close> are the state cells of the same
    names.
\<close>

datatype readyState = CONNECTING | OPEN | CLOSING | CLOSED

type_synonym ListState = "string \<rightharpoonup> bool"

record client =
  connected :: bool
  ws :: "readyState option"
  wire :: "string list"
  listState :: ListState
  changesCount :: nat
  rangeStart :: nat
  rangeEnd :: nat

text \<open>
  The first render: \<open>useState(false)\<close>, \<open>useRef(null)\<close>, \<open>useRef({})\<close>,
  \<open>useState(0)\<close>, \<open>useDebounceValue(0, 1000)\<close> and \<open>useDebounceValue(1000, 1000)\<close>.
\<close>

definition initialClient :: client where
  "initialClient =
     \<lparr>connected = False, ws = None, wire = [], listState = Map.empty,
      changesCount = 0, rangeStart = 0, rangeEnd = 1000\<rparr>"

section \<open>\<open>useWebSocket\<close>\<close>

text \<open>
  \<open>send\<close>: \<open>if (!connected || ws.current?.readyState !== WebSocket.OPEN) return;\<close>
  and otherwise \<open>ws.current?.send(data)\<close>. With \<open>ws.current\<close> null the optional chain
  gives \<open>undefined\<close>, which differs from \<open>WebSocket.OPEN\<close>.
\<close>

definition send :: "client \<Rightarrow> string \<Rightarrow> client" where
  "send st data =
     (if \<not> connected st \<or> ws st \<noteq> Some OPEN then st
      else st\<lparr>wire := wire st @ [data]\<rparr>)"

text \<open>
  The hook's one-time effect: \<open>ws.current = new WebSocket(...)\<close>; a new socket is
  \<open>CONNECTING\<close>.
\<close>

definition mount :: "client \<Rightarrow> client" where
  "mount st = st\<lparr>ws := Some CONNECTING\<rparr>"

section \<open>The sparse state store\<close>

text \<open>
  The store is written in three places, always by the same two statements:
  \<open>listState.current[k] = true\<close> and \<open>delete listState.current[k]\<close>. It is read
  in one: \<open>listState.current[actualIndex] ?? false\<close>, with a number as key.
  The map holds the object's own properties. The one key at which an assignment does
  not create an own property, \<open>__proto__\<close>, is not the text of any index and no
  property below reads it.
\<close>

definition markChecked :: "string \<Rightarrow> ListState \<Rightarrow> ListState" where
  "markChecked k store = store(k \<mapsto> True)"

definition markUnchecked :: "string \<Rightarrow> ListState \<Rightarrow> ListState" where
  "markUnchecked k store = store(k := None)"

definition isChecked :: "ListState \<Rightarrow> nat \<Rightarrow> bool" where
  "isChecked store i = (case store (numberText i) of None \<Rightarrow> False | Some b \<Rightarrow> b)"

section \<open>Geometry\<close>

definition checkboxSize :: nat where
  "checkboxSize = 32"

definition checkboxPadding :: nat where
  "checkboxPadding = 4"

text \<open>\<open>zeroToTenMilion.length\<close>.\<close>

definition zeroToTenMilionLength :: nat where
  "zeroToTenMilionLength = 10000000"

text \<open>
  \<open>const width = windowSize.width ?? 1360;\<close>
  \<open>const columnLength = Math.floor(width / (checkboxSize + checkboxPadding));\<close>
  The width is \<open>null\<close> (here \<open>None\<close>) until the layout effect has read
  \<open>window.innerWidth\<close>, a non-negative integer. Division is over the rationals: for
  integers of this size the floating-point quotient has the same floor.
\<close>

definition columnLength :: "nat option \<Rightarrow> nat" where
  "columnLength windowWidth =
     (let width = (case windowWidth of None \<Rightarrow> 1360 | Some w \<Rightarrow> w)
      in nat \<lfloor>(of_nat width :: rat) / of_nat (checkboxSize + checkboxPadding)\<rfloor>)"

text \<open>
  \<open>count: zeroToTenMilion.length / columnLength\<close>: the quotient is not rounded, and a
  division by zero gives \<open>Infinity\<close>.
\<close>

datatype number = Finite rat | Infinity

definition rowCount :: "nat \<Rightarrow> number" where
  "rowCount columns =
     (if columns = 0 then Infinity
      else Finite (of_nat zeroToTenMilionLength / of_nat columns))"

text \<open>
  The virtualizer is the package \<open>@tanstack/react-virtual\<close>, not part of the
  repository. Neither \<open>useVirtualizer\<close> call sets a range extractor, so the items of
  \<open>getVirtualItems()\<close> (overscan included) are those of the package's default one, which
  stops at \<open>count - 1\<close>: an item index \<open>i\<close> satisfies \<open>0 \<le> i \<le> count - 1\<close>. That bound
  is all the model takes from the virtualizer.
\<close>

definition virtualIndex :: "number \<Rightarrow> nat \<Rightarrow> bool" where
  "virtualIndex count i =
     (case count of Infinity \<Rightarrow> True | Finite q \<Rightarrow> of_nat i \<le> q - 1)"

text \<open>\<open>const actualIndex = virtualRow.index * columnLength + virtualColumn.index;\<close>\<close>

definition actualIndex :: "nat \<Rightarrow> nat \<Rightarrow> nat \<Rightarrow> nat" where
  "actualIndex rowIndex columns columnIndex = rowIndex * columns + columnIndex"

section \<open>Handlers of the component\<close>

text \<open>
  The checkbox's \<open>onChange\<close>: the store first, then the counter, then the command
  \<open>c,<index>\<close> or \<open>u,<index>\<close> through \<open>webSocket.send\<close>.
\<close>

definition onChange :: "client \<Rightarrow> nat \<Rightarrow> bool \<Rightarrow> client" where
  "onChange st index checked =
     (let store = (if checked then markChecked (numberText index) (listState st)
                   else markUnchecked (numberText index) (listState st));
          st1 = st\<lparr>listState := store, changesCount := changesCount st + 1\<rparr>
      in send st1 ((if checked then ''c'' else ''u'') @ '','' @ numberText index))"

text \<open>
  The callback of \<open>data.forEach\<close> in the response branch: a tuple \<open>index:checked\<close> is
  skipped when either part is missing or empty; the bit \<open>1\<close> sets the entry, anything
  else deletes it.
\<close>

definition mergeTuple :: "(string \<Rightarrow> string) \<Rightarrow> ListState \<Rightarrow> string \<Rightarrow> ListState" where
  "mergeTuple other store tuples =
     (let parts = split CHR '':'' tuples;
          index = element parts 0;
          checked = element parts 1
      in if falsy index \<or> falsy checked then store
         else (case index of
                 None \<Rightarrow> store
               | Some i \<Rightarrow>
                   if checked = Some ''1'' then markChecked (numberKey other i) store
                   else markUnchecked (numberKey other i) store))"

text \<open>
  The response branch of the message callback: \<open>data = event.data.split(",")\<close>,
  \<open>data.shift()\<close>, the loop over the tuples, \<open>setChangesCount\<close>.
\<close>

definition mergeResponse :: "(string \<Rightarrow> string) \<Rightarrow> client \<Rightarrow> string \<Rightarrow> client" where
  "mergeResponse other st data =
     (let tuples = tl (split CHR '','' data)
      in st\<lparr>listState := foldl (mergeTuple other) (listState st) tuples,
            changesCount := changesCount st + 1\<rparr>)"

text \<open>
  The broadcast branch: \<open>const [type, index] = event.data.split(",")\<close>, then the two
  tests on \<open>type\<close>, one after the other, with \<open>index\<close> itself (a string or
  \<open>undefined\<close>) as the property key, then \<open>setChangesCount\<close>.
\<close>

definition applyBroadcast :: "client \<Rightarrow> string \<Rightarrow> client" where
  "applyBroadcast st data =
     (let parts = split CHR '','' data;
          type = element parts 0;
          index = element parts 1;
          s1 = (if type = Some ''c'' then markChecked (propertyKey index) (listState st)
                else listState st);
          s2 = (if type = Some ''u'' then markUnchecked (propertyKey index) s1 else s1)
      in st\<lparr>listState := s2, changesCount := changesCount st + 1\<rparr>)"

text \<open>
  The callback given to \<open>webSocket.onMessage\<close>, on the text \<open>event.data\<close> of a frame.
\<close>

definition messageCallback :: "(string \<Rightarrow> string) \<Rightarrow> client \<Rightarrow> string \<Rightarrow> client" where
  "messageCallback other st data =
     (if includesStr data ''get,'' then mergeResponse other st data
      else applyBroadcast st data)"

text \<open>
  The effect with dependencies \<open>[webSocket.connected, rangeStart, rangeEnd]\<close>:
  nothing while not connected, otherwise \<open>get,<rangeStart>,<rangeEnd>\<close>.
\<close>

definition rangeQueryEffect :: "client \<Rightarrow> client" where
  "rangeQueryEffect st =
     (if \<not> connected st then st
      else send st (''get,'' @ numberText (rangeStart st) @ '','' @ numberText (rangeEnd st)))"

text \<open>
  The listener \<open>onOpen\<close> calls \<open>setConnected(true)\<close>. Setting a state cell to the value
  it has renders nothing; a changed value renders the component again, and after that
  render React runs the effects of which a dependency changed: here the range query
  effect, through \<open>webSocket.connected\<close>.
\<close>

definition onOpen :: "client \<Rightarrow> client" where
  "onOpen st = (if connected st then st else rangeQueryEffect (st\<lparr>connected := True\<rparr>))"

text \<open>
  The socket opens: the browser sets its \<open>readyState\<close> to \<open>OPEN\<close> and dispatches the
  event \<open>open\<close> to the listener.
\<close>

definition socketOpened :: "client \<Rightarrow> client" where
  "socketOpened st = onOpen (st\<lparr>ws := Some OPEN\<rparr>)"

section \<open>Notions used to state the properties\<close>

text \<open>
  What a tuple of a response does to the store, when it does anything: the key it
  names and whether its bit is \<open>1\<close>.
\<close>

definition tupleListing :: "(string \<Rightarrow> string) \<Rightarrow> string \<Rightarrow> (string \<times> bool) option" where
  "tupleListing other tuples =
     (case (element (split CHR '':'' tuples) 0, element (split CHR '':'' tuples) 1) of
        (Some i, Some c) \<Rightarrow>
          if i = [] \<or> c = [] then None else Some (numberKey other i, c = ''1'')
      | _ \<Rightarrow> None)"

text \<open>The last listing of a key among the tuples of a response, if it is listed.\<close>

fun lastListing :: "(string \<Rightarrow> string) \<Rightarrow> string list \<Rightarrow> string \<Rightarrow> bool option" where
  "lastListing other [] k = None"
| "lastListing other (t # ts) k =
     (case lastListing other ts k of
        Some b \<Rightarrow> Some b
      | None \<Rightarrow>
          (case tupleListing other t of
             None \<Rightarrow> None
           | Some (k', b) \<Rightarrow> if k' = k then Some b else None))"





section \<open>Facts about the strings\<close>

lemma isDigit_digitChar: "d < 10 \<Longrightarrow> isDigit (digitChar d)"
proof -
  assume "d < 10"
  then have "d \<in> {0,1,2,3,4,5,6,7,8,9}" by auto
  then show ?thesis by (auto simp: isDigit_def digitChar_def)
qed

lemma digitValue_digitChar: "d < 10 \<Longrightarrow> digitValue (digitChar d) = d"
proof -
  assume "d < 10"
  then have "d \<in> {0,1,2,3,4,5,6,7,8,9}" by auto
  then show ?thesis by (auto simp: digitValue_def digitChar_def)
qed

lemma numberText_digitString: "digitString (numberText n)"
proof (induction n rule: numberText.induct)
  case (1 n)
  show ?case
  proof (cases "n < 10")
    case True
    then show ?thesis
      by (subst numberText.simps) (simp add: digitString_def isDigit_digitChar)
  next
    case False
    with 1 have "digitString (numberText (n div 10))" by simp
    moreover have "isDigit (digitChar (n mod 10))" by (simp add: isDigit_digitChar)
    ultimately show ?thesis using False
      by (subst numberText.simps) (simp add: digitString_def)
  qed
qed

lemma digitsValue_snoc: "digitsValue (s @ [c]) = 10 * digitsValue s + digitValue c"
  by (simp add: digitsValue_def)

lemma digitsValue_numberText: "digitsValue (numberText n) = n"
proof (induction n rule: numberText.induct)
  case (1 n)
  show ?case
  proof (cases "n < 10")
    case True
    then show ?thesis
      by (subst numberText.simps) (simp add: digitsValue_def digitValue_digitChar)
  next
    case False
    with 1 have "digitsValue (numberText (n div 10)) = n div 10" by simp
    then show ?thesis using False
      by (subst numberText.simps) (simp add: digitsValue_snoc digitValue_digitChar)
  qed
qed


lemma numberKey_numberText: "n \<le> 2 ^ 53 \<Longrightarrow> numberKey other (numberText n) = numberText n"
  by (simp add: numberKey_def numberText_digitString digitsValue_numberText)

lemma split_no_sep: "sep \<notin> set xs \<Longrightarrow> split sep xs = [xs]"
  by (induction xs) auto

lemma split_append_sep: "sep \<notin> set xs \<Longrightarrow> split sep (xs @ sep # ys) = xs # split sep ys"
  by (induction xs) auto

lemma includesStr_sublist: "includesStr s sub \<longleftrightarrow> sublist sub s"
  by (induction s) (auto simp: sublist_Cons_right)

lemma includesStr_member: "includesStr s sub \<Longrightarrow> set sub \<subseteq> set s"
  by (auto simp: includesStr_sublist dest: set_mono_sublist)

lemma digitString_chars: "digitString s \<Longrightarrow> c \<in> set s \<Longrightarrow> isDigit c"
  by (simp add: digitString_def list_all_iff)

section \<open>The sync channel\<close>

text \<open>
  C8. For every command, \<open>send\<close> while the hook is not connected, or while the socket
  is absent or not \<open>OPEN\<close>, changes nothing: no frame reaches the wire, no error path
  exists (\<open>send\<close> returns the state it was given), and nothing is kept for later,
  so that when the socket opens afterwards the client does exactly what it would have
  done without the call.
\<close>

theorem disconnected_send_noop:
  assumes "\<not> connected st \<or> ws st \<noteq> Some OPEN"
  shows "send st command = st \<and> wire (send st command) = wire st
         \<and> socketOpened (send st command) = socketOpened st"
  using assms by (simp add: send_def)

theorem disconnected_send_noop_witness:
  "\<not> connected (mount initialClient) \<and> ws (mount initialClient) \<noteq> Some OPEN
   \<and> send (mount initialClient) ''c,1'' = mount initialClient
   \<and> wire (send (mount initialClient) ''c,1'') = []
   \<and> wire (socketOpened (send (mount initialClient) ''c,1'')) = [''get,0,1000'']"
proof -
  have h: "\<not> connected (mount initialClient) \<or> ws (mount initialClient) \<noteq> Some OPEN"
    by (simp add: mount_def initialClient_def)
  have n0: "numberText 0 = ''0''"
    by (simp add: numberText.simps digitChar_def)
  have n1000: "numberText 1000 = ''1000''"
    by (simp add: numberText.simps digitChar_def)
  have "wire (socketOpened (mount initialClient)) = [''get,0,1000'']"
    by (simp add: socketOpened_def onOpen_def rangeQueryEffect_def send_def mount_def
        initialClient_def n0 n1000)
  with h disconnected_send_noop [OF h, of "''c,1''"] show ?thesis
    by (simp add: mount_def initialClient_def)
qed

section \<open>Facts about the store\<close>

lemma mergeTuple_listing:
  "mergeTuple other store t =
     (case tupleListing other t of
        None \<Rightarrow> store
      | Some (k, b) \<Rightarrow> if b then markChecked k store else markUnchecked k store)"
  by (auto simp: mergeTuple_def tupleListing_def falsy_def Let_def split: option.splits)

lemma foldl_mergeTuple:
  "foldl (mergeTuple other) store ts k =
     (case lastListing other ts k of
        None \<Rightarrow> store k
      | Some b \<Rightarrow> if b then Some True else None)"
proof (induction ts arbitrary: store)
  case Nil
  show ?case by simp
next
  case (Cons t ts)
  have "foldl (mergeTuple other) store (t # ts) k =
          (case lastListing other ts k of
             None \<Rightarrow> mergeTuple other store t k
           | Some b \<Rightarrow> if b then Some True else None)"
    by (simp add: Cons.IH)
  also have "\<dots> =
          (case lastListing other (t # ts) k of
             None \<Rightarrow> store k
           | Some b \<Rightarrow> if b then Some True else None)"
    by (cases "tupleListing other t")
      (auto simp: mergeTuple_listing [of other store t] markChecked_def markUnchecked_def
        split: option.splits)
  finally show ?case .
qed







lemma listState_send: "listState (send st data) = listState st"
  by (simp add: send_def)





section \<open>Facts about the frames\<close>

lemma not_digit_chars:
  "\<not> isDigit CHR '',''" "\<not> isDigit CHR '':''" "\<not> isDigit CHR ''g''" "\<not> isDigit CHR ''u''"
  by (simp_all add: isDigit_def)

lemma numberText_no_char: "\<not> isDigit c \<Longrightarrow> c \<notin> set (numberText n)"
  using digitString_chars [OF numberText_digitString] by blast

lemma split_broadcast:
  "CHR '','' \<notin> set t \<Longrightarrow> split CHR '','' (t @ CHR '','' # numberText i) = [t, numberText i]"
  by (simp add: split_append_sep split_no_sep numberText_no_char not_digit_chars)

lemma broadcast_not_response:
  "CHR ''g'' \<notin> set t \<Longrightarrow> \<not> includesStr (t @ CHR '','' # numberText i) ''get,''"
proof
  assume g: "CHR ''g'' \<notin> set t" and "includesStr (t @ CHR '','' # numberText i) ''get,''"
  then have "CHR ''g'' \<in> set (t @ CHR '','' # numberText i)"
    using includesStr_member by fastforce
  with g show False
    by (simp add: numberText_no_char not_digit_chars)
qed

lemma callback_check_frame:
  "listState (messageCallback other st (CHR ''c'' # CHR '','' # numberText i)) =
     markChecked (numberText i) (listState st)"
  using split_broadcast [of "''c''" i] broadcast_not_response [of "''c''" i]
  by (simp add: messageCallback_def applyBroadcast_def Let_def propertyKey_def)

lemma callback_uncheck_frame:
  "listState (messageCallback other st (CHR ''u'' # CHR '','' # numberText i)) =
     markUnchecked (numberText i) (listState st)"
  using split_broadcast [of "''u''" i] broadcast_not_response [of "''u''" i]
  by (simp add: messageCallback_def applyBroadcast_def Let_def propertyKey_def)

lemma split_zero_tuple:
  "split CHR '':'' (numberText i @ '':0'') = [numberText i, ''0'']"
  by (simp add: split_append_sep numberText_no_char not_digit_chars)

lemma split_zero_response:
  "split CHR '','' (''get,'' @ numberText i @ '':0'') = [''get'', numberText i @ '':0'']"
proof -
  have "CHR '','' \<notin> set (numberText i @ '':0'')"
    by (simp add: numberText_no_char not_digit_chars)
  then have "split CHR '','' (numberText i @ '':0'') = [numberText i @ '':0'']"
    by (rule split_no_sep)
  then show ?thesis by simp
qed

lemma numberText_nonempty: "numberText i \<noteq> []"
  using numberText_digitString [of i] by (simp add: digitString_def)

lemma callback_zero_response:
  assumes "i \<le> 2 ^ 53"
  shows "listState (messageCallback other st
                      (CHR ''g'' # CHR ''e'' # CHR ''t'' # CHR '','' # numberText i @ '':0'')) =
           markUnchecked (numberText i) (listState st)"
proof -
  have "includesStr (''get,'' @ numberText i @ '':0'') ''get,''"
    by simp
  moreover have "mergeTuple other (listState st) (numberText i @ '':0'') =
      markUnchecked (numberText i) (listState st)"
    using assms
    by (simp add: mergeTuple_def split_zero_tuple falsy_def numberText_nonempty
        numberKey_numberText)
  ultimately show ?thesis
    using split_zero_response [of i]
    by (simp add: messageCallback_def mergeResponse_def)
qed

lemma listState_onChange:
  "listState (onChange st i b) =
     (if b then markChecked (numberText i) (listState st)
      else markUnchecked (numberText i) (listState st))"
  by (simp add: onChange_def Let_def listState_send)

lemma numberText_small:
  "numberText 0 = ''0''" "numberText 5 = ''5''" "numberText 7 = ''7''"
  "numberText 42 = ''42''" "numberText 1000 = ''1000''"
  by (simp_all add: numberText.simps digitChar_def)

lemma numberKey_small:
  "numberKey other ''5'' = ''5''" "numberKey other ''7'' = ''7''"
  "numberKey other ''10'' = ''10''" "numberKey other ''500'' = ''500''"
  by (simp_all add: numberKey_def digitString_def isDigit_def digitsValue_def digitValue_def
      numberText.simps digitChar_def)

section \<open>Toggle round trip\<close>

text \<open>
  C7. For every index \<open>i\<close>: after the local check of \<open>i\<close> (the checkbox's
  \<open>onChange\<close> with \<open>checked\<close> true), processing the echoed broadcast \<open>c,<i>\<close> leaves
  \<open>isChecked i\<close> true, and the store is the one the local check alone produced.
\<close>

theorem toggle_round_trip:
  "isChecked (listState (messageCallback other (onChange st i True) (''c,'' @ numberText i))) i
   \<and> listState (messageCallback other (onChange st i True) (''c,'' @ numberText i)) =
       listState (onChange st i True)"
  by (simp add: callback_check_frame listState_onChange markChecked_def isChecked_def)

theorem toggle_round_trip_witness:
  "isChecked (listState (messageCallback otherNaN (onChange initialClient 42 True) ''c,42'')) 42
   \<and> listState (messageCallback otherNaN (onChange initialClient 42 True) ''c,42'') =
       listState (onChange initialClient 42 True)
   \<and> dom (listState (messageCallback otherNaN (onChange initialClient 42 True) ''c,42'')) = {''42''}"
proof -
  have frame: "''c,'' @ numberText 42 = ''c,42''"
    by (simp add: numberText_small)
  have "dom (listState (onChange initialClient 42 True)) = {''42''}"
    by (simp add: listState_onChange markChecked_def initialClient_def numberText_small)
  with toggle_round_trip [of otherNaN initialClient 42] show ?thesis
    unfolding frame by metis
qed

section \<open>Merge idempotence\<close>

text \<open>
  C6. For every store and every frame, a range query response in particular, the
  message callback applied twice to the same frame leaves the store as one application
  does. An unchecked event for an index without an entry changes nothing, whether it
  comes as the broadcast \<open>u,<i>\<close> or as the tuple \<open><i>:0\<close> of a response; there is no
  error path.
\<close>

theorem merge_idempotent:
  "listState (messageCallback other (messageCallback other st data) data) =
     listState (messageCallback other st data)
   \<and> (listState st (numberText i) = None \<longrightarrow>
        listState (messageCallback other st (''u,'' @ numberText i)) = listState st)
   \<and> (listState st (numberText i) = None \<longrightarrow> i \<le> 2 ^ 53 \<longrightarrow>
        listState (messageCallback other st (''get,'' @ numberText i @ '':0'')) = listState st)"
proof (intro conjI impI)
  show "listState (messageCallback other (messageCallback other st data) data) =
          listState (messageCallback other st data)"
  proof (cases "includesStr data ''get,''")
    case True
    have "foldl (mergeTuple other) (foldl (mergeTuple other) s ts) ts = foldl (mergeTuple other) s ts"
      for s ts
      by (rule ext) (simp add: foldl_mergeTuple split: option.splits)
    with True show ?thesis
      by (simp add: messageCallback_def mergeResponse_def)
  next
    case False
    then show ?thesis
      by (simp add: messageCallback_def applyBroadcast_def Let_def markChecked_def
          markUnchecked_def)
  qed
next
  assume "listState st (numberText i) = None"
  then show "listState (messageCallback other st (''u,'' @ numberText i)) = listState st"
    by (simp add: callback_uncheck_frame markUnchecked_def fun_upd_idem)
next
  assume "listState st (numberText i) = None" and "i \<le> 2 ^ 53"
  then show "listState (messageCallback other st (''get,'' @ numberText i @ '':0'')) = listState st"
    by (simp add: callback_zero_response markUnchecked_def fun_upd_idem)
qed

theorem merge_idempotent_witness:
  "listState (messageCallback otherNaN (messageCallback otherNaN initialClient ''get,5:1,10:1'')
      ''get,5:1,10:1'') =
     listState (messageCallback otherNaN initialClient ''get,5:1,10:1'')
   \<and> dom (listState (messageCallback otherNaN initialClient ''get,5:1,10:1'')) = {''5'', ''10''}
   \<and> listState initialClient (numberText 7) = None
   \<and> listState (messageCallback otherNaN initialClient ''u,7'') = listState initialClient
   \<and> listState (messageCallback otherNaN initialClient ''get,7:0'') = listState initialClient"
proof -
  have none: "listState initialClient (numberText 7) = None"
    by (simp add: initialClient_def)
  have small: "(7::nat) \<le> 2 ^ 53"
    by simp
  have frames: "''u,'' @ numberText 7 = ''u,7''" "''get,'' @ numberText 7 @ '':0'' = ''get,7:0''"
    by (simp_all add: numberText_small)
  have "dom (listState (messageCallback otherNaN initialClient ''get,5:1,10:1'')) = {''5'', ''10''}"
    by (auto simp: messageCallback_def mergeResponse_def mergeTuple_def falsy_def
        markChecked_def numberKey_small initialClient_def)
  with none small merge_idempotent [of otherNaN initialClient "''get,5:1,10:1''" 7]
  show ?thesis
    unfolding frames by metis
qed

section \<open>Sparse store invariant\<close>



section \<open>Merging a range response\<close>

text \<open>
  C3, as stated, fails: the claim has every index that the response does not report
  checked keep its state, but a tuple with a bit other than \<open>1\<close> deletes the entry of
  its index. Index \<open>5\<close> is checked, the response \<open>get,5:0\<close> does not report it
  checked, and after the merge it is unchecked.
\<close>

theorem merge_range_counterexample:
  "''5:1'' \<notin> set (tl (split CHR '','' ''get,5:0''))
   \<and> isChecked (listState (onChange initialClient 5 True)) 5
   \<and> \<not> isChecked (listState (messageCallback otherNaN (onChange initialClient 5 True) ''get,5:0'')) 5"
  by (simp add: isChecked_def listState_onChange markChecked_def markUnchecked_def
      messageCallback_def mergeResponse_def mergeTuple_def falsy_def numberText_small
      numberKey_small)

text \<open>
  C3, amended. Merging a range response touches only the keys its tuples list: a key
  whose last listing has the bit \<open>1\<close> is checked afterwards, a key whose last listing
  has any other bit has no entry afterwards, and every key that no tuple lists, inside
  or outside the queried range, keeps exactly the state it had.
\<close>

theorem merge_range_frame:
  assumes "includesStr data ''get,''"
  shows "listState (messageCallback other st data) k =
           (case lastListing other (tl (split CHR '','' data)) k of
              None \<Rightarrow> listState st k
            | Some b \<Rightarrow> if b then Some True else None)"
  using assms by (simp add: messageCallback_def mergeResponse_def foldl_mergeTuple)

theorem merge_range_frame_witness:
  "includesStr ''get,7:1,500:1'' ''get,''
   \<and> listState (messageCallback otherNaN (onChange initialClient 5 True) ''get,7:1,500:1'') ''7''
       = Some True
   \<and> listState (messageCallback otherNaN (onChange initialClient 5 True) ''get,7:1,500:1'') ''500''
       = Some True
   \<and> listState (messageCallback otherNaN (onChange initialClient 5 True) ''get,7:1,500:1'') ''5''
       = listState (onChange initialClient 5 True) ''5''
   \<and> listState (messageCallback otherNaN (onChange initialClient 5 True) ''get,7:1,500:1'') ''300''
       = listState (onChange initialClient 5 True) ''300''"
proof -
  have h: "includesStr ''get,7:1,500:1'' ''get,''"
    by simp
  have l: "lastListing otherNaN (tl (split CHR '','' ''get,7:1,500:1'')) ''7'' = Some True"
    "lastListing otherNaN (tl (split CHR '','' ''get,7:1,500:1'')) ''500'' = Some True"
    "lastListing otherNaN (tl (split CHR '','' ''get,7:1,500:1'')) ''5'' = None"
    "lastListing otherNaN (tl (split CHR '','' ''get,7:1,500:1'')) ''300'' = None"
    by (simp_all add: tupleListing_def numberKey_small)
  show ?thesis
    using h l
      merge_range_frame [OF h, of otherNaN "onChange initialClient 5 True" "''7''"]
      merge_range_frame [OF h, of otherNaN "onChange initialClient 5 True" "''500''"]
      merge_range_frame [OF h, of otherNaN "onChange initialClient 5 True" "''5''"]
      merge_range_frame [OF h, of otherNaN "onChange initialClient 5 True" "''300''"]
    by simp
qed

section \<open>Malformed broadcasts\<close>

text \<open>
  C2, as stated, fails: the broadcast branch uses the text after the comma as the
  property key without looking at it. The frame \<open>c,abc\<close> has no index that can be
  parsed, and processing it adds the entry \<open>abc\<close> to the empty store.
\<close>

theorem malformed_broadcast_counterexample:
  "\<not> digitString ''abc''
   \<and> listState initialClient ''abc'' = None
   \<and> listState (messageCallback otherNaN initialClient ''c,abc'') ''abc'' = Some True"
  by (simp add: digitString_def isDigit_def initialClient_def messageCallback_def
      applyBroadcast_def propertyKey_def markChecked_def markUnchecked_def)

text \<open>
  C2, amended. For every inbound frame that is handled as a mutation broadcast and whose
  index part is missing or is not a string of decimal digits, processing the frame
  leaves \<open>isChecked i\<close> as it was for every index \<open>i\<close>, transmits nothing and leaves
  the connection as it was; the callback has no error path and only the store and the
  change counter differ afterwards.
\<close>

theorem malformed_broadcast_harmless:
  assumes "\<not> includesStr data ''get,''"
    and "case element (split CHR '','' data) 1 of None \<Rightarrow> True | Some s \<Rightarrow> \<not> digitString s"
  shows "isChecked (listState (messageCallback other st data)) i = isChecked (listState st) i
         \<and> messageCallback other st data =
             st\<lparr>listState := listState (messageCallback other st data),
                changesCount := changesCount st + 1\<rparr>
         \<and> wire (messageCallback other st data) = wire st"
proof -
  have "\<not> digitString ''undefined''"
    by (simp add: digitString_def isDigit_def)
  with assms(2) have "\<not> digitString (propertyKey (element (split CHR '','' data) 1))"
    by (simp add: propertyKey_def split: option.splits)
  then have "propertyKey (element (split CHR '','' data) 1) \<noteq> numberText i"
    using numberText_digitString [of i] by auto
  with assms(1) show ?thesis
    by (simp add: messageCallback_def applyBroadcast_def Let_def isChecked_def
        markChecked_def markUnchecked_def)
qed

theorem malformed_broadcast_harmless_witness:
  "\<not> includesStr ''c,abc'' ''get,''
   \<and> element (split CHR '','' ''c,abc'') 1 = Some ''abc'' \<and> \<not> digitString ''abc''
   \<and> isChecked (listState (messageCallback otherNaN (onChange initialClient 5 True) ''c,abc'')) 5
   \<and> wire (messageCallback otherNaN (onChange initialClient 5 True) ''c,abc'') = []"
proof -
  have h1: "\<not> includesStr ''c,abc'' ''get,''"
    by simp
  have e: "element (split CHR '','' ''c,abc'') 1 = Some ''abc''" and d: "\<not> digitString ''abc''"
    by (simp_all add: digitString_def isDigit_def)
  have h2: "case element (split CHR '','' ''c,abc'') 1 of None \<Rightarrow> True
            | Some s \<Rightarrow> \<not> digitString s"
    using d by (simp add: e)
  have "isChecked (listState (onChange initialClient 5 True)) 5"
    and "wire (onChange initialClient 5 True) = []"
    by (simp_all add: isChecked_def onChange_def send_def markChecked_def initialClient_def)
  with malformed_broadcast_harmless [OF h1 h2, of otherNaN "onChange initialClient 5 True" 5]
  show ?thesis
    using h1 e d by simp
qed

section \<open>Classification of inbound frames\<close>

text \<open>
  C10. A frame goes through the response merge exactly when its text contains
  \<open>get,\<close> at some position, not only at the start; every other frame goes through
  the broadcast branch. So a frame that looks like a mutation but carries \<open>get,\<close> in
  its payload is merged as a response.
\<close>

theorem frame_classification:
  "messageCallback other st data =
     (if \<exists>pre post. data = pre @ ''get,'' @ post then mergeResponse other st data
      else applyBroadcast st data)"
  by (simp add: messageCallback_def includesStr_sublist sublist_def)

theorem frame_classification_witness:
  "(\<exists>pre post. ''c,get,5:1'' = pre @ ''get,'' @ post)
   \<and> messageCallback otherNaN initialClient ''c,get,5:1'' =
       mergeResponse otherNaN initialClient ''c,get,5:1''
   \<and> dom (listState (messageCallback otherNaN initialClient ''c,get,5:1'')) = {''5''}
   \<and> dom (listState (applyBroadcast initialClient ''c,get,5:1'')) = {''get''}
   \<and> \<not> (\<exists>pre post. ''u,5'' = pre @ ''get,'' @ post)
   \<and> messageCallback otherNaN initialClient ''u,5'' = applyBroadcast initialClient ''u,5''"
proof -
  have yes: "\<exists>pre post. ''c,get,5:1'' = pre @ ''get,'' @ post"
    by (rule exI [of _ "''c,''"], rule exI [of _ "''5:1''"]) simp
  have "\<not> includesStr ''u,5'' ''get,''"
    by simp
  then have no: "\<not> (\<exists>pre post. ''u,5'' = pre @ ''get,'' @ post)"
    by (simp only: includesStr_sublist sublist_def not_False_eq_True)
  have m: "messageCallback otherNaN initialClient ''c,get,5:1'' =
      mergeResponse otherNaN initialClient ''c,get,5:1''"
    using frame_classification [of otherNaN initialClient "''c,get,5:1''"] yes
    by (simp only: if_True)
  have b: "messageCallback otherNaN initialClient ''u,5'' = applyBroadcast initialClient ''u,5''"
    using frame_classification [of otherNaN initialClient "''u,5''"] no
    by (simp only: if_False)
  have d1: "dom (listState (mergeResponse otherNaN initialClient ''c,get,5:1'')) = {''5''}"
    by (auto simp: mergeResponse_def mergeTuple_def falsy_def markChecked_def numberKey_small
        initialClient_def)
  have d2: "dom (listState (applyBroadcast initialClient ''c,get,5:1'')) = {''get''}"
    by (auto simp: applyBroadcast_def propertyKey_def markChecked_def initialClient_def)
  show ?thesis
    using yes no m b d1 d2 by (simp only: simp_thms)
qed

section \<open>The first range query\<close>

text \<open>
  C4. When the socket of a client that is not yet connected opens, the client sends
  exactly one frame, the range query \<open>get,<rangeStart>,<rangeEnd>\<close> for the settled
  range it holds at that moment; the client is then connected, and a further open event
  sends nothing.
\<close>

theorem first_range_query:
  assumes "\<not> connected st" and "ws st = Some CONNECTING"
  shows "wire (socketOpened st) =
           wire st @ [''get,'' @ numberText (rangeStart st) @ '','' @ numberText (rangeEnd st)]
         \<and> connected (socketOpened st) \<and> ws (socketOpened st) = Some OPEN
         \<and> wire (socketOpened (socketOpened st)) = wire (socketOpened st)"
  using assms by (simp add: socketOpened_def onOpen_def rangeQueryEffect_def send_def)

theorem first_range_query_witness:
  "\<not> connected (mount initialClient) \<and> ws (mount initialClient) = Some CONNECTING
   \<and> wire (mount initialClient) = []
   \<and> wire (socketOpened (mount initialClient)) = [''get,0,1000'']"
proof -
  have h1: "\<not> connected (mount initialClient)" and h2: "ws (mount initialClient) = Some CONNECTING"
    and w: "wire (mount initialClient) = []"
    and r: "rangeStart (mount initialClient) = 0" "rangeEnd (mount initialClient) = 1000"
    by (simp_all add: mount_def initialClient_def)
  show ?thesis
    using h1 h2 w first_range_query [OF h1 h2]
    by (simp add: r numberText_small)
qed

section \<open>Geometry\<close>

lemma columnLength_div:
  "columnLength (Some w) = w div (checkboxSize + checkboxPadding)"
  by (simp add: columnLength_def floor_divide_of_nat_eq del: of_nat_add)

lemma actualIndex_bound:
  assumes "virtualIndex (rowCount columns) rowIndex"
    and "virtualIndex (Finite (of_nat columns)) columnIndex"
  shows "actualIndex rowIndex columns columnIndex < zeroToTenMilionLength"
proof -
  let ?N = "zeroToTenMilionLength"
  have col: "(of_nat columnIndex :: rat) \<le> of_nat columns - 1"
    using assms(2) by (simp add: virtualIndex_def)
  then have pos: "0 < columns"
    by (cases "columns = 0") auto
  from col have "(of_nat (columnIndex + 1) :: rat) \<le> of_nat columns"
    by simp
  then have c1: "columnIndex + 1 \<le> columns"
    by (simp only: of_nat_le_iff)
  from assms(1) pos have "(of_nat rowIndex :: rat) \<le> of_nat ?N / of_nat columns - 1"
    by (simp add: virtualIndex_def rowCount_def)
  then have "(of_nat (rowIndex + 1) :: rat) \<le> of_nat ?N / of_nat columns"
    by simp
  with pos have "(of_nat (rowIndex + 1) :: rat) * of_nat columns \<le> of_nat ?N"
    by (simp add: pos_le_divide_eq)
  then have "(of_nat ((rowIndex + 1) * columns) :: rat) \<le> of_nat ?N"
    by (simp only: of_nat_mult)
  then have r1: "(rowIndex + 1) * columns \<le> ?N"
    by (simp only: of_nat_le_iff)
  have "actualIndex rowIndex columns columnIndex < (rowIndex + 1) * columns"
    using c1 by (simp add: actualIndex_def)
  with r1 show ?thesis
    by simp
qed

text \<open>
  C1. For every available width above zero the column count is the floor of the width
  over the cell extent (cell size plus padding, 36), whether or not any cell is visible
  at that width; and for every row and column that the two virtualizers hand to the
  renderer, overscan included, the linear index
  \<open>rowIndex * columnLength + columnIndex\<close> is below ten million.
\<close>

theorem geometry_correctness:
  assumes "0 < availableWidth"
  shows "columnLength (Some availableWidth) = availableWidth div (checkboxSize + checkboxPadding)
         \<and> int (columnLength (Some availableWidth)) =
             \<lfloor>real availableWidth / real (checkboxSize + checkboxPadding)\<rfloor>
         \<and> (\<forall>rowIndex columnIndex.
               virtualIndex (rowCount (columnLength (Some availableWidth))) rowIndex \<longrightarrow>
               virtualIndex (Finite (of_nat (columnLength (Some availableWidth)))) columnIndex \<longrightarrow>
               actualIndex rowIndex (columnLength (Some availableWidth)) columnIndex
                 < zeroToTenMilionLength)"
proof (intro conjI allI impI)
  show "columnLength (Some availableWidth) = availableWidth div (checkboxSize + checkboxPadding)"
    by (rule columnLength_div)
  show "int (columnLength (Some availableWidth)) =
          \<lfloor>real availableWidth / real (checkboxSize + checkboxPadding)\<rfloor>"
    by (simp add: columnLength_div floor_divide_of_nat_eq del: of_nat_add)
next
  fix rowIndex columnIndex
  assume "virtualIndex (rowCount (columnLength (Some availableWidth))) rowIndex"
    and "virtualIndex (Finite (of_nat (columnLength (Some availableWidth)))) columnIndex"
  then show "actualIndex rowIndex (columnLength (Some availableWidth)) columnIndex
               < zeroToTenMilionLength"
    by (rule actualIndex_bound)
qed

theorem geometry_correctness_witness:
  "(0::nat) < 1360
   \<and> columnLength (Some 1360) = 37
   \<and> columnLength (Some 1360) = 1360 div (checkboxSize + checkboxPadding)
   \<and> virtualIndex (rowCount (columnLength (Some 1360))) 270269
   \<and> virtualIndex (Finite (of_nat (columnLength (Some 1360)))) 36
   \<and> actualIndex 270269 (columnLength (Some 1360)) 36 = 9999989
   \<and> actualIndex 270269 (columnLength (Some 1360)) 36 < zeroToTenMilionLength
   \<and> \<not> virtualIndex (rowCount (columnLength (Some 1360))) 270270
   \<and> (0::nat) < 20
   \<and> columnLength (Some 20) = 20 div (checkboxSize + checkboxPadding)
   \<and> columnLength (Some 20) = 0"
proof -
  have c: "columnLength (Some 1360) = 37"
    by (simp add: columnLength_div checkboxSize_def checkboxPadding_def)
  have h1: "(0::nat) < 1360" and k1: "(0::nat) < 20"
    by simp_all
  have h2: "virtualIndex (rowCount (columnLength (Some 1360))) 270269"
    by (simp add: c virtualIndex_def rowCount_def zeroToTenMilionLength_def)
  have h3: "virtualIndex (Finite (of_nat (columnLength (Some 1360)))) 36"
    by (simp add: c virtualIndex_def)
  have n: "\<not> virtualIndex (rowCount (columnLength (Some 1360))) 270270"
    by (simp add: c virtualIndex_def rowCount_def zeroToTenMilionLength_def)
  have a: "actualIndex 270269 (columnLength (Some 1360)) 36 = 9999989"
    by (simp add: c actualIndex_def)
  note wide = geometry_correctness [OF h1]
  note narrow = geometry_correctness [OF k1]
  from wide have w1: "columnLength (Some 1360) = 1360 div (checkboxSize + checkboxPadding)"
    by (rule conjunct1)
  from wide h2 h3 have w2: "actualIndex 270269 (columnLength (Some 1360)) 36 < zeroToTenMilionLength"
    by blast
  from narrow have n1: "columnLength (Some 20) = 20 div (checkboxSize + checkboxPadding)"
    by (rule conjunct1)
  then have n2: "columnLength (Some 20) = 0"
    by (simp add: checkboxSize_def checkboxPadding_def)
  show ?thesis
    using h1 k1 c w1 h2 h3 a w2 n n1 n2 by (intro conjI)
qed

end
